theory Spec2Isabelle
  imports Complex_Main "HOL-Library.AList" "HOL-Library.Char_ord" "HOL-Library.List_Lexorder"
begin

section \<open>Data model of the storage module\<close>

text \<open>
  The interfaces \<open>User\<close> and \<open>Attendance\<close> of the storage module. Time stamps are held by
  the code as ISO strings produced by \<open>Date.toISOString()\<close> and read back with
  \<open>new Date(s).getTime()\<close>; the two are inverse to each other, so a time stamp is modelled
  by its epoch milliseconds. A JavaScript \<open>number\<close> that holds hours or a percentage is
  modelled by an exact rational (the rounding of IEEE doubles is not part of the model);
  counters are integers. \<open>string | null\<close> and \<open>number | null\<close> are options.
\<close>

datatype Role = Employee | Manager

datatype AttendanceStatus = Present | Absent | Late | HalfDay

fun statusString :: "AttendanceStatus \<Rightarrow> string" where
  "statusString Present = ''present''"
| "statusString Absent = ''absent''"
| "statusString Late = ''late''"
| "statusString HalfDay = ''half-day''"

record User =
  u_id :: string
  u_name :: string
  u_email :: string
  u_password :: string
  u_role :: Role
  u_employeeId :: string
  u_department :: string
  u_createdAt :: int

record Attendance =
  a_id :: string
  userId :: string
  date :: string
  checkInTime :: "int option"
  checkOutTime :: "int option"
  status :: AttendanceStatus
  totalHours :: "rat option"
  a_createdAt :: int

record InsertAttendance =
  i_userId :: string
  i_date :: string
  i_checkInTime :: "int option"
  i_checkOutTime :: "int option"
  i_status :: AttendanceStatus
  i_totalHours :: "rat option"

text \<open>
  \<open>updateAttendance\<close> takes a \<open>Partial<Attendance>\<close>. Its only caller, the check-out route,
  passes \<open>checkOutTime\<close>, \<open>totalHours\<close> and \<open>status\<close>; the patch carries these three fields,
  each of them optional (\<open>None\<close>: the key is not in the object).
\<close>

record AttendanceUpdates =
  p_checkOutTime :: "int option option"
  p_totalHours :: "rat option option"
  p_status :: "AttendanceStatus option"

text \<open>The filter object of \<open>getAllAttendance\<close>; \<open>None\<close> is \<open>undefined\<close>.\<close>

record Filters =
  f_employeeId :: "string option"
  f_date :: "string option"
  f_status :: "string option"
  f_from :: "string option"
  f_to :: "string option"

text \<open>
  What the routes observe of a \<open>Date\<close> object: \<open>getTime()\<close>, the local \<open>getHours()\<close>,
  \<open>getMinutes()\<close>, \<open>getSeconds()\<close> and \<open>getDate()\<close> (day of the month). The routes read only
  hours, minutes and the day of the month; the seconds are there to state time-of-day
  properties.
\<close>

record Date =
  getTime :: int
  getHours :: int
  getMinutes :: int
  getSeconds :: int
  getDate :: int

section \<open>JavaScript helpers\<close>

text \<open>Truthiness of an optional string: \<open>undefined\<close> and the empty string are falsy.\<close>

fun truthy :: "string option \<Rightarrow> bool" where
  "truthy None = False"
| "truthy (Some s) = (s \<noteq> [])"

definition startsWith :: "string \<Rightarrow> string \<Rightarrow> bool" where
  "startsWith s p = (take (length p) s = p)"

text \<open>\<open>Math.round\<close>: the nearest integer, a tie going towards \<open>+\<infinity>\<close>.\<close>

definition mathRound :: "rat \<Rightarrow> int" where
  "mathRound x = \<lfloor>x + 1 / 2\<rfloor>"

text \<open>\<open>s.split("-")\<close>.\<close>

fun splitDash :: "string \<Rightarrow> string list" where
  "splitDash [] = [[]]"
| "splitDash (c # cs) =
     (if c = CHR ''-'' then [] # splitDash cs
      else (case splitDash cs of [] \<Rightarrow> [[c]] | p # ps \<Rightarrow> (c # p) # ps))"

text \<open>
  \<open>Number(s)\<close> on the strings a year-month has: a string of decimal digits is its value and
  the empty string is 0. Every other string is taken as \<open>NaN\<close> (\<open>None\<close>); JavaScript also
  reads signs, blanks, fractions, exponents and radix prefixes, which a year-month does not
  contain.
\<close>

definition digitVal :: "char \<Rightarrow> int option" where
  "digitVal c =
     (let n = (of_char c :: nat)
      in if 48 \<le> n \<and> n \<le> 57 then Some (int n - 48) else None)"

fun digitsVal :: "int \<Rightarrow> string \<Rightarrow> int option" where
  "digitsVal acc [] = Some acc"
| "digitsVal acc (c # cs) =
     (case digitVal c of None \<Rightarrow> None | Some d \<Rightarrow> digitsVal (10 * acc + d) cs)"

definition Number :: "string \<Rightarrow> int option" where
  "Number s = digitsVal 0 s"

text \<open>
  Array destructuring \<open>const [year, month] = parts.map(Number)\<close>: a missing element is
  \<open>undefined\<close>, which every later arithmetic turns into \<open>NaN\<close>.
\<close>

definition yearMonthNumbers :: "string \<Rightarrow> int option \<times> int option" where
  "yearMonthNumbers yearMonth =
     (case map Number (splitDash yearMonth) of
        [] \<Rightarrow> (None, None)
      | [y] \<Rightarrow> (y, None)
      | y # m # _ \<Rightarrow> (y, m))"

section \<open>Calendar arithmetic of \<open>Date\<close>\<close>

text \<open>
  \<open>new Date(year, monthIndex, day)\<close> is a local midnight. It is modelled by the number of
  its local calendar day, counted from 1970-01-01, with the day arithmetic of ECMAScript
  (\<open>DayFromYear\<close>, \<open>MakeDay\<close>, \<open>WeekDay\<close>): months and days outside their range carry over, and
  a year from 0 to 99 means 1900 + year. \<open>None\<close> is the invalid date, which any \<open>NaN\<close>
  argument gives. The limit of \<open>\<plusminus>\<close>100,000,000 days on a time value is not modelled.
\<close>

definition isLeapYear :: "int \<Rightarrow> bool" where
  "isLeapYear y = ((y mod 4 = 0 \<and> y mod 100 \<noteq> 0) \<or> y mod 400 = 0)"

definition DayFromYear :: "int \<Rightarrow> int" where
  "DayFromYear y =
     365 * (y - 1970) + (y - 1969) div 4 - (y - 1901) div 100 + (y - 1601) div 400"

definition daysBeforeMonth :: "bool \<Rightarrow> int \<Rightarrow> int" where
  "daysBeforeMonth leap m =
     (if m = 0 then 0 else if m = 1 then 31
      else (if leap then 1 else 0) +
        (if m = 2 then 59 else if m = 3 then 90 else if m = 4 then 120
         else if m = 5 then 151 else if m = 6 then 181 else if m = 7 then 212
         else if m = 8 then 243 else if m = 9 then 273 else if m = 10 then 304
         else 334))"

definition MakeDay :: "int \<Rightarrow> int \<Rightarrow> int \<Rightarrow> int" where
  "MakeDay year month dt =
     (let ym = year + month div 12; mn = month mod 12
      in DayFromYear ym + daysBeforeMonth (isLeapYear ym) mn + dt - 1)"

definition newDate :: "int option \<Rightarrow> int option \<Rightarrow> int option \<Rightarrow> int option" where
  "newDate year monthIndex day =
     (case (year, monthIndex, day) of
        (Some y, Some m, Some d) \<Rightarrow>
          Some (MakeDay (if 0 \<le> y \<and> y \<le> 99 then 1900 + y else y) m d)
      | _ \<Rightarrow> None)"

text \<open>\<open>getDay()\<close>: 0 is Sunday, 6 is Saturday; \<open>NaN\<close> on the invalid date.\<close>

definition getDay :: "int option \<Rightarrow> int option" where
  "getDay d = map_option (\<lambda>n. (n + 4) mod 7) d"

text \<open>
  The test \<open>day !== 0 && day !== 6\<close> of the loops. \<open>NaN\<close> differs from both, so the
  invalid date passes it.
\<close>

definition notWeekend :: "int option \<Rightarrow> bool" where
  "notWeekend d = (getDay d \<noteq> Some 0 \<and> getDay d \<noteq> Some 6)"

text \<open>
  \<open>getWorkingDaysInMonth\<close>: the loop \<open>for (d = new Date(start); d <= end;
  d.setDate(d.getDate() + 1))\<close> over day numbers (\<open>startDay\<close> and \<open>endDay\<close> are the source's
  \<open>start\<close> and \<open>end\<close>). With invalid dates the comparison \<open>d <= end\<close> is false at once.
\<close>

function workingDaysLoop :: "int \<Rightarrow> int \<Rightarrow> int \<Rightarrow> int" where
  "workingDaysLoop d endDay count =
     (if d \<le> endDay
      then workingDaysLoop (d + 1) endDay (if notWeekend (Some d) then count + 1 else count)
      else count)"
  by pat_completeness auto
termination
  by (relation "measure (\<lambda>(d, endDay, count). nat (endDay + 1 - d))") auto

definition getWorkingDaysInMonth :: "string \<Rightarrow> int" where
  "getWorkingDaysInMonth yearMonth =
     (let (year, month) = yearMonthNumbers yearMonth;
          startDay = newDate year (map_option (\<lambda>m. m - 1) month) (Some 1);
          endDay = newDate year month (Some 0)
      in case (startDay, endDay) of
           (Some s, Some e) \<Rightarrow> workingDaysLoop s e 0
         | _ \<Rightarrow> 0)"

text \<open>
  The loop the summary and dashboard routes run for the current month:
  \<open>for (let d = 1; d <= today.getDate(); d++) { const date = new Date(year, mon - 1, d);
  if (date.getDay() !== 0 && date.getDay() !== 6) daysToCount++; }\<close>
\<close>

function daysToCountLoop :: "int option \<Rightarrow> int option \<Rightarrow> int \<Rightarrow> int \<Rightarrow> int \<Rightarrow> int" where
  "daysToCountLoop year mon d lastDay daysToCount =
     (if d \<le> lastDay
      then daysToCountLoop year mon (d + 1) lastDay
             (if notWeekend (newDate year (map_option (\<lambda>m. m - 1) mon) (Some d))
              then daysToCount + 1 else daysToCount)
      else daysToCount)"
  by pat_completeness auto
termination
  by (relation "measure (\<lambda>(year, mon, d, lastDay, daysToCount). nat (lastDay + 1 - d))") auto

definition daysToCountUpTo :: "string \<Rightarrow> int \<Rightarrow> int" where
  "daysToCountUpTo month lastDay =
     (let (year, mon) = yearMonthNumbers month
      in daysToCountLoop year mon 1 lastDay 0)"

text \<open>
  \<open>new Date(s).getTime()\<close> for a stored date \<open>s\<close>. The store holds dates written by
  \<open>toISOString().split("T")[0]\<close>, of the form YYYY-MM-DD, which parse as UTC midnight (a
  day up to 31 is read in any month and carries over, as \<open>MakeDay\<close> has it). Every other
  string is taken as the invalid date (\<open>NaN\<close>).
\<close>

definition dateGetTime :: "string \<Rightarrow> int option" where
  "dateGetTime s =
     (if length s = 10 \<and> s ! 4 = CHR ''-'' \<and> s ! 7 = CHR ''-''
      then (case (Number (take 4 s), Number (take 2 (drop 5 s)), Number (drop 8 s)) of
              (Some y, Some m, Some d) \<Rightarrow>
                (if 1 \<le> m \<and> m \<le> 12 \<and> 1 \<le> d \<and> d \<le> 31
                 then Some (MakeDay y (m - 1) d * 86400000) else None)
            | _ \<Rightarrow> None)
      else None)"

text \<open>
  \<open>Array.prototype.sort(compare)\<close>: a stable sort; an element goes before another when
  \<open>compare\<close> is negative, and a \<open>NaN\<close> result counts as 0.
\<close>

fun insertBy :: "('a \<Rightarrow> 'a \<Rightarrow> int) \<Rightarrow> 'a \<Rightarrow> 'a list \<Rightarrow> 'a list" where
  "insertBy cmp x [] = [x]"
| "insertBy cmp x (y # ys) =
     (if cmp x y \<le> 0 then x # y # ys else y # insertBy cmp x ys)"

definition sortBy :: "('a \<Rightarrow> 'a \<Rightarrow> int) \<Rightarrow> 'a list \<Rightarrow> 'a list" where
  "sortBy cmp xs = foldr (insertBy cmp) xs []"

text \<open>The comparison \<open>new Date(b.date).getTime() - new Date(a.date).getTime()\<close>.\<close>

definition byDateDesc :: "Attendance \<Rightarrow> Attendance \<Rightarrow> int" where
  "byDateDesc a b =
     (case (dateGetTime (date b), dateGetTime (date a)) of
        (Some tb, Some ta) \<Rightarrow> tb - ta
      | _ \<Rightarrow> 0)"

text \<open>
  The order of \<open>.sort({ date: -1 })\<close> on the date strings, greatest first. Strings are
  compared character by character (\<open>Char_ord\<close>, \<open>List_Lexorder\<close>), as JavaScript and
  MongoDB compare ASCII strings.
\<close>

definition byDateStringDesc :: "Attendance \<Rightarrow> Attendance \<Rightarrow> int" where
  "byDateStringDesc a b = (if date b < date a then - 1 else if date a < date b then 1 else 0)"

text \<open>\<open>[...new Set(xs)]\<close>: the distinct elements in the order of their first occurrence.\<close>

definition newSet :: "'a list \<Rightarrow> 'a list" where
  "newSet xs = foldl (\<lambda>acc x. if List.member acc x then acc else acc @ [x]) [] xs"

section \<open>The two storage backends\<close>

text \<open>
  \<open>MemStorage\<close> holds two \<open>Map\<close>s from id to object; a \<open>Map\<close> keeps its keys in insertion
  order, so it is an association list: \<open>Map.set\<close> is \<open>AList.update\<close> (an existing key keeps
  its place, a new one goes to the end), \<open>Map.get\<close> is \<open>map_of\<close> and \<open>Map.values()\<close> is
  \<open>map snd\<close>.

  \<open>MongoStorage\<close> holds its documents in MongoDB, which is not part of the repository. A
  collection is modelled by the list of its documents in insertion order, \<open>find\<close> by
  \<open>filter\<close>, \<open>findOne\<close> by \<open>find\<close>, and \<open>save\<close> by what the schema declares: the required
  strings \<open>id\<close>, \<open>userId\<close> and \<open>date\<close> must not be empty, \<open>id\<close> is unique, and
  \<open>attendanceSchema.index({ userId: 1, date: 1 }, { unique: true })\<close> makes the pair
  unique (error code 11000).
\<close>

datatype Storage =
    MemStorage "(string \<times> User) list" "(string \<times> Attendance) list"
  | MongoStorage "User list" "Attendance list"

datatype StoreError = DuplicateKey | ValidationError


fun getAllEmployees :: "Storage \<Rightarrow> User list" where
  "getAllEmployees (MemStorage users attendance) =
     filter (\<lambda>user. u_role user = Employee) (map snd users)"
| "getAllEmployees (MongoStorage users docs) =
     filter (\<lambda>user. u_role user = Employee) users"

fun getAttendance :: "Storage \<Rightarrow> string \<Rightarrow> Attendance option" where
  "getAttendance (MemStorage users attendance) ident = map_of attendance ident"
| "getAttendance (MongoStorage users docs) ident = find (\<lambda>a. a_id a = ident) docs"

fun getAttendanceByUserAndDate :: "Storage \<Rightarrow> string \<Rightarrow> string \<Rightarrow> Attendance option" where
  "getAttendanceByUserAndDate (MemStorage users attendance) uid d =
     find (\<lambda>a. userId a = uid \<and> date a = d) (map snd attendance)"
| "getAttendanceByUserAndDate (MongoStorage users docs) uid d =
     find (\<lambda>a. userId a = uid \<and> date a = d) docs"

text \<open>
  \<open>createAttendance\<close> draws its id from \<open>randomUUID()\<close> and its creation time from the clock;
  both are arguments here.
\<close>

definition newAttendance :: "InsertAttendance \<Rightarrow> string \<Rightarrow> int \<Rightarrow> Attendance" where
  "newAttendance ins ident created =
     \<lparr>a_id = ident, userId = i_userId ins, date = i_date ins,
      checkInTime = i_checkInTime ins, checkOutTime = i_checkOutTime ins,
      status = i_status ins, totalHours = i_totalHours ins, a_createdAt = created\<rparr>"

fun createAttendance ::
  "Storage \<Rightarrow> InsertAttendance \<Rightarrow> string \<Rightarrow> int \<Rightarrow> StoreError + (Attendance \<times> Storage)" where
  "createAttendance (MemStorage users attendance) ins ident created =
     (let a = newAttendance ins ident created
      in Inr (a, MemStorage users (AList.update ident a attendance)))"
| "createAttendance (MongoStorage users docs) ins ident created =
     (let a = newAttendance ins ident created
      in if ident = [] \<or> i_userId ins = [] \<or> i_date ins = [] then Inl ValidationError
         else if list_ex (\<lambda>d. a_id d = ident \<or> (userId d = i_userId ins \<and> date d = i_date ins)) docs
         then Inl DuplicateKey
         else Inr (a, MongoStorage users (docs @ [a])))"

text \<open>\<open>{ ...existing, ...updates }\<close>, and the same fields set by \<open>findOneAndUpdate\<close>.\<close>

definition applyUpdates :: "Attendance \<Rightarrow> AttendanceUpdates \<Rightarrow> Attendance" where
  "applyUpdates existing updates =
     existing
       \<lparr>checkOutTime := (case p_checkOutTime updates of None \<Rightarrow> checkOutTime existing | Some v \<Rightarrow> v),
        totalHours := (case p_totalHours updates of None \<Rightarrow> totalHours existing | Some v \<Rightarrow> v),
        status := (case p_status updates of None \<Rightarrow> status existing | Some v \<Rightarrow> v)\<rparr>"

text \<open>\<open>findOneAndUpdate({ id }, updates, { new: true })\<close>: the first document with that id.\<close>

fun findOneAndUpdate ::
  "string \<Rightarrow> AttendanceUpdates \<Rightarrow> Attendance list \<Rightarrow> Attendance option \<times> Attendance list" where
  "findOneAndUpdate ident updates [] = (None, [])"
| "findOneAndUpdate ident updates (d # ds) =
     (if a_id d = ident then (Some (applyUpdates d updates), applyUpdates d updates # ds)
      else (case findOneAndUpdate ident updates ds of (r, ds') \<Rightarrow> (r, d # ds')))"

fun updateAttendance ::
  "Storage \<Rightarrow> string \<Rightarrow> AttendanceUpdates \<Rightarrow> Attendance option \<times> Storage" where
  "updateAttendance (MemStorage users attendance) ident updates =
     (case map_of attendance ident of
        None \<Rightarrow> (None, MemStorage users attendance)
      | Some existing \<Rightarrow>
          (let updated = applyUpdates existing updates
           in (Some updated, MemStorage users (AList.update ident updated attendance))))"
| "updateAttendance (MongoStorage users docs) ident updates =
     (case findOneAndUpdate ident updates docs of
        (r, docs') \<Rightarrow> (r, MongoStorage users docs'))"

text \<open>
  \<open>getAttendanceByUser\<close>. The MongoDB query is \<open>{ userId, date: { $regex: `^${month}` } }\<close>;
  for a month without regular-expression operators (digits and a dash) the expression
  matches the dates that start with the month, which is what the model takes.
\<close>

fun getAttendanceByUser :: "Storage \<Rightarrow> string \<Rightarrow> string option \<Rightarrow> Attendance list" where
  "getAttendanceByUser (MemStorage users attendance) uid month =
     (let records = filter (\<lambda>a. userId a = uid) (map snd attendance);
          records = (case month of
                       None \<Rightarrow> records
                     | Some m \<Rightarrow> if m \<noteq> [] then filter (\<lambda>a. startsWith (date a) m) records
                                else records)
      in sortBy byDateDesc records)"
| "getAttendanceByUser (MongoStorage users docs) uid month =
     (let records = (case month of
                       None \<Rightarrow> filter (\<lambda>a. userId a = uid) docs
                     | Some m \<Rightarrow> if m \<noteq> []
                                then filter (\<lambda>a. userId a = uid \<and> startsWith (date a) m) docs
                                else filter (\<lambda>a. userId a = uid) docs)
      in sortBy byDateStringDesc records)"

text \<open>
  The query object \<open>getAllAttendance\<close> builds for MongoDB: \<open>query.userId\<close>, \<open>query.status\<close>,
  and \<open>query.date\<close>, which is either a string or an object with \<open>$gte\<close> and \<open>$lte\<close>.
\<close>

datatype DateQuery = DateIs string | DateRange "string option" "string option"

record Query =
  q_userId :: "string option"
  q_date :: "DateQuery option"
  q_status :: "string option"

fun dateMatches :: "DateQuery \<Rightarrow> string \<Rightarrow> bool" where
  "dateMatches (DateIs d) s = (s = d)"
| "dateMatches (DateRange gte lte) s =
     ((case gte of None \<Rightarrow> True | Some lo \<Rightarrow> lo \<le> s) \<and>
      (case lte of None \<Rightarrow> True | Some hi \<Rightarrow> s \<le> hi))"

definition queryMatches :: "Query \<Rightarrow> Attendance \<Rightarrow> bool" where
  "queryMatches query a =
     ((case q_userId query of None \<Rightarrow> True | Some u \<Rightarrow> userId a = u) \<and>
      (case q_date query of None \<Rightarrow> True | Some dq \<Rightarrow> dateMatches dq (date a)) \<and>
      (case q_status query of None \<Rightarrow> True | Some s \<Rightarrow> statusString (status a) = s))"

definition mongoQuery :: "Filters \<Rightarrow> Query" where
  "mongoQuery filters =
     (let query = \<lparr>q_userId = None, q_date = None, q_status = None\<rparr>;
          query = (if truthy (f_employeeId filters)
                   then query\<lparr>q_userId := f_employeeId filters\<rparr> else query);
          query = (if truthy (f_date filters)
                   then query\<lparr>q_date := map_option DateIs (f_date filters)\<rparr> else query);
          query = (if truthy (f_status filters)
                   then query\<lparr>q_status := f_status filters\<rparr> else query);
          query = (if truthy (f_from filters) \<or> truthy (f_to filters)
                   then query\<lparr>q_date := Some (DateRange
                          (if truthy (f_from filters) then f_from filters else None)
                          (if truthy (f_to filters) then f_to filters else None))\<rparr>
                   else query)
      in query)"

fun getAllAttendance :: "Storage \<Rightarrow> Filters \<Rightarrow> Attendance list" where
  "getAllAttendance (MemStorage users attendance) filters =
     (let records = map snd attendance;
          records = (if truthy (f_employeeId filters)
                     then filter (\<lambda>a. Some (userId a) = f_employeeId filters) records
                     else records);
          records = (if truthy (f_date filters)
                     then filter (\<lambda>a. Some (date a) = f_date filters) records else records);
          records = (if truthy (f_status filters)
                     then filter (\<lambda>a. Some (statusString (status a)) = f_status filters) records
                     else records);
          records = (case f_from filters of
                       None \<Rightarrow> records
                     | Some lo \<Rightarrow> if lo \<noteq> [] then filter (\<lambda>a. lo \<le> date a) records
                                 else records);
          records = (case f_to filters of
                       None \<Rightarrow> records
                     | Some hi \<Rightarrow> if hi \<noteq> [] then filter (\<lambda>a. date a \<le> hi) records
                                 else records)
      in sortBy byDateDesc records)"
| "getAllAttendance (MongoStorage users docs) filters =
     sortBy byDateStringDesc (filter (queryMatches (mongoQuery filters)) docs)"

fun getAttendanceByDate :: "Storage \<Rightarrow> string \<Rightarrow> Attendance list" where
  "getAttendanceByDate (MemStorage users attendance) d =
     filter (\<lambda>a. date a = d) (map snd attendance)"
| "getAttendanceByDate (MongoStorage users docs) d = filter (\<lambda>a. date a = d) docs"

section \<open>The attendance routes (\<open>registerRoutes\<close>)\<close>

text \<open>
  A route is a function from the store and the request to the response and the new store.
  The responses with status 400 are the errors of the state machine; an exception of the
  store is caught by the route and answered with status 500.
\<close>

datatype ApiError =
    AlreadyCheckedIn    \<comment> \<open>400, "Already checked in today"\<close>
  | NoCheckInFound      \<comment> \<open>400, "No check-in record found for today"\<close>
  | AlreadyCheckedOut   \<comment> \<open>400, "Already checked out today"\<close>
  | CheckInFailed       \<comment> \<open>500, "Check-in failed"\<close>

text \<open>
  \<open>POST /api/attendance/checkin\<close>. \<open>today\<close> is \<open>getStartOfDay()\<close>, the UTC date of the clock
  as YYYY-MM-DD, and \<open>now\<close> is \<open>new Date()\<close>.
\<close>

definition checkinStatus :: "Date \<Rightarrow> AttendanceStatus" where
  "checkinStatus now =
     (let hour = getHours now; minute = getMinutes now
      in if hour > 9 \<or> (hour = 9 \<and> minute > 15) then Late else Present)"

definition checkin ::
  "Storage \<Rightarrow> string \<Rightarrow> string \<Rightarrow> Date \<Rightarrow> string \<Rightarrow> int \<Rightarrow> (ApiError + Attendance) \<times> Storage" where
  "checkin storage uid today now uuid created =
     (case getAttendanceByUserAndDate storage uid today of
        Some existing \<Rightarrow> (Inl AlreadyCheckedIn, storage)
      | None \<Rightarrow>
          (case createAttendance storage
                  \<lparr>i_userId = uid, i_date = today, i_checkInTime = Some (getTime now),
                   i_checkOutTime = None, i_status = checkinStatus now, i_totalHours = None\<rparr>
                  uuid created of
             Inl e \<Rightarrow> (Inl CheckInFailed, storage)
           | Inr (attendance, storage') \<Rightarrow> (Inr attendance, storage')))"

text \<open>
  \<open>POST /api/attendance/checkout\<close>. \<open>new Date(attendance.checkInTime!)\<close> of a null check-in
  time is the epoch. The response is \<open>res.json(updated)\<close>, where \<open>updated\<close> is what
  \<open>updateAttendance\<close> returns.
\<close>

definition elapsedHours :: "Attendance \<Rightarrow> Date \<Rightarrow> rat" where
  "elapsedHours attendance now =
     (let checkIn = (case checkInTime attendance of None \<Rightarrow> 0 | Some t \<Rightarrow> t)
      in of_int (getTime now - checkIn) / (1000 * 60 * 60))"

definition checkout ::
  "Storage \<Rightarrow> string \<Rightarrow> string \<Rightarrow> Date \<Rightarrow> (ApiError + Attendance option) \<times> Storage" where
  "checkout storage uid today now =
     (case getAttendanceByUserAndDate storage uid today of
        None \<Rightarrow> (Inl NoCheckInFound, storage)
      | Some attendance \<Rightarrow>
          if checkOutTime attendance \<noteq> None then (Inl AlreadyCheckedOut, storage)
          else
            (let hours = elapsedHours attendance now;
                 st = (if hours < 4 then HalfDay else status attendance)
             in case updateAttendance storage (a_id attendance)
                       \<lparr>p_checkOutTime = Some (Some (getTime now)),
                        p_totalHours = Some (Some (of_int (mathRound (hours * 10)) / 10)),
                        p_status = Some st\<rparr> of
                  (updated, storage') \<Rightarrow> (Inr updated, storage')))"

text \<open>
  \<open>GET /api/attendance/my-summary\<close>. \<open>monthParam\<close> is \<open>req.query.month\<close>, \<open>today\<close> is
  \<open>getStartOfDay()\<close> and \<open>todayDate\<close> is \<open>new Date()\<close>. The body of \<open>records.forEach\<close> is
  \<open>tally\<close>, on the counters \<open>(present, late, halfDay, totalHours)\<close>.
\<close>

record MonthlySummary =
  present :: int
  absent :: int
  late :: int
  halfDay :: int
  sumHours :: rat
  workingDays :: int

fun tally :: "int \<times> int \<times> int \<times> rat \<Rightarrow> Attendance \<Rightarrow> int \<times> int \<times> int \<times> rat" where
  "tally (p, l, h, t) r =
     (let (p, l, h) =
            (if status r = Present then (p + 1, l, h)
             else if status r = Late then (p, l + 1, h)
             else if status r = HalfDay then (p, l, h + 1)
             else (p, l, h));
          t = (case totalHours r of None \<Rightarrow> t | Some x \<Rightarrow> if x \<noteq> 0 then t + x else t)
      in (p, l, h, t))"

definition requestedMonth :: "string option \<Rightarrow> string \<Rightarrow> string" where
  "requestedMonth monthParam today =
     (case monthParam of
        None \<Rightarrow> take 7 today
      | Some m \<Rightarrow> if m \<noteq> [] then m else take 7 today)"

definition mySummary ::
  "Storage \<Rightarrow> string \<Rightarrow> string option \<Rightarrow> string \<Rightarrow> Date \<Rightarrow> MonthlySummary" where
  "mySummary storage uid monthParam today todayDate =
     (let month = requestedMonth monthParam today;
          records = getAttendanceByUser storage uid (Some month);
          (p, l, h, t) = foldl tally (0, 0, 0, 0) records;
          wd = getWorkingDaysInMonth month;
          currentMonth = take 7 today;
          daysToCount = (if month = currentMonth
                         then daysToCountUpTo month (getDate todayDate) else wd);
          a = max 0 (daysToCount - (p + l + h))
      in \<lparr>present = p, absent = a, late = l, halfDay = h,
          sumHours = of_int (mathRound (t * 10)) / 10, workingDays = daysToCount\<rparr>)"

text \<open>
  \<open>GET /api/attendance/summary\<close>, on the counters \<open>(totalPresent, totalLate, totalAbsent,
  totalHalfDay)\<close>: the loop over the employees and, inside it, over each one's records.
\<close>

record OrgSummary =
  totalEmployees :: int
  orgPresent :: int
  orgLate :: int
  orgHalfDay :: int
  orgAbsent :: int

fun tallyOrg :: "int \<times> int \<times> int \<times> int \<Rightarrow> Attendance \<Rightarrow> int \<times> int \<times> int \<times> int" where
  "tallyOrg (totalPresent, totalLate, totalAbsent, totalHalfDay) r =
     (if status r = Present then (totalPresent + 1, totalLate, totalAbsent, totalHalfDay)
      else if status r = Late then (totalPresent, totalLate + 1, totalAbsent, totalHalfDay)
      else if status r = HalfDay then (totalPresent, totalLate, totalAbsent, totalHalfDay + 1)
      else (totalPresent, totalLate, totalAbsent, totalHalfDay))"

definition orgSummary :: "Storage \<Rightarrow> string option \<Rightarrow> string \<Rightarrow> OrgSummary" where
  "orgSummary storage monthParam today =
     (let employees = getAllEmployees storage;
          month = requestedMonth monthParam today;
          (totalPresent, totalLate, totalAbsent, totalHalfDay) =
            foldl (\<lambda>acc emp. foldl tallyOrg acc (getAttendanceByUser storage (u_id emp) (Some month)))
              (0, 0, 0, 0) employees
      in \<lparr>totalEmployees = int (length employees), orgPresent = totalPresent,
          orgLate = totalLate, orgHalfDay = totalHalfDay, orgAbsent = totalAbsent\<rparr>)"

text \<open>
  The \<open>departmentWise\<close> part of \<open>GET /api/dashboard/manager\<close>: one entry for each department
  of the roster.
\<close>

record DepartmentStat =
  department :: string
  deptPresent :: int
  total :: int
  percentage :: rat

definition departmentStat :: "Storage \<Rightarrow> User list \<Rightarrow> string \<Rightarrow> Date \<Rightarrow> string \<Rightarrow> DepartmentStat" where
  "departmentStat storage employees today todayDate dept =
     (let currentMonth = take 7 today;
          deptEmployees = filter (\<lambda>e. u_department e = dept) employees;
          monthRecords = getAllAttendance storage
            \<lparr>f_employeeId = None, f_date = None, f_status = None,
             f_from = Some (currentMonth @ ''-01''), f_to = Some today\<rparr>;
          deptRecords = filter (\<lambda>r. list_ex (\<lambda>e. u_id e = userId r) deptEmployees) monthRecords;
          presentCount = int (length (filter (\<lambda>r. status r = Present \<or> status r = Late) deptRecords));
          daysToCount = daysToCountUpTo currentMonth (getDate todayDate);
          totalPossible = int (length deptEmployees) * daysToCount;
          pct = (if totalPossible > 0
                 then (of_int presentCount / of_int totalPossible) * 100 else 0)
      in \<lparr>department = dept, deptPresent = presentCount, total = int (length deptEmployees),
          percentage = of_int (mathRound (pct * 10)) / 10\<rparr>)"

definition departmentWise :: "Storage \<Rightarrow> string \<Rightarrow> Date \<Rightarrow> DepartmentStat list" where
  "departmentWise storage today todayDate =
     (let employees = getAllEmployees storage;
          departments = newSet (map u_department employees)
      in map (departmentStat storage employees today todayDate) departments)"

section \<open>Reachable stores\<close>

text \<open>
  The natural key of a record, and the stores in which no two records share it.
\<close>

definition naturalKey :: "Attendance \<Rightarrow> string \<times> string" where
  "naturalKey a = (userId a, date a)"


text \<open>
  Of the exposed operations only check-in and check-out write attendance records;
  registration writes users and every other operation reads. A run of operations, each
  taken as a whole, leads from a store to the stores \<open>reachableFrom\<close> it.
\<close>

fun sameAttendance :: "Storage \<Rightarrow> Storage \<Rightarrow> bool" where
  "sameAttendance (MemStorage users attendance) (MemStorage users' attendance') =
     (attendance' = attendance)"
| "sameAttendance (MongoStorage users docs) (MongoStorage users' docs') = (docs' = docs)"
| "sameAttendance (MemStorage users attendance) (MongoStorage users' docs') = False"
| "sameAttendance (MongoStorage users docs) (MemStorage users' attendance') = False"

inductive reachableFrom :: "Storage \<Rightarrow> Storage \<Rightarrow> bool" for s0 :: Storage where
  start: "reachableFrom s0 s0"
| checkin_step:
    "reachableFrom s0 s \<Longrightarrow> checkin s uid today now uuid created = (res, s')
     \<Longrightarrow> reachableFrom s0 s'"
| checkout_step:
    "reachableFrom s0 s \<Longrightarrow> checkout s uid today now = (res', s') \<Longrightarrow> reachableFrom s0 s'"
| users_step:
    "reachableFrom s0 s \<Longrightarrow> sameAttendance s s' \<Longrightarrow> reachableFrom s0 s'"

text \<open>
  In \<open>MemStorage\<close> every record is filed under its own id: \<open>createAttendance\<close> sets the key
  and the \<open>id\<close> field to the same value and \<open>updateAttendance\<close> leaves both alone.
  \<open>MongoStorage\<close> has no separate key.
\<close>

fun keysAreIds :: "Storage \<Rightarrow> bool" where
  "keysAreIds (MemStorage users attendance) = list_all (\<lambda>p. a_id (snd p) = fst p) attendance"
| "keysAreIds (MongoStorage users docs) = True"

text \<open>Time of day in seconds after local midnight.\<close>

definition secondsOfDay :: "Date \<Rightarrow> int" where
  "secondsOfDay d = 3600 * getHours d + 60 * getMinutes d + getSeconds d"

section \<open>Concrete requests\<close>

text \<open>
  Stores, clock readings and records used to run the routes on explicit inputs. The
  clock readings are those of a server whose local zone is UTC, in the first days of
  June 2024: the 1st is a Saturday, the 2nd a Sunday and the 3rd a Monday.
\<close>

definition clockAt :: "int \<Rightarrow> int \<Rightarrow> int \<Rightarrow> int \<Rightarrow> Date" where
  "clockAt day h m s =
     \<lparr>getTime = 1717200000000 + 86400000 * (day - 1) + 1000 * (3600 * h + 60 * m + s),
      getHours = h, getMinutes = m, getSeconds = s, getDate = day\<rparr>"

definition recordOn :: "string \<Rightarrow> string \<Rightarrow> string \<Rightarrow> AttendanceStatus \<Rightarrow> Date \<Rightarrow> Attendance" where
  "recordOn ident uid d st now =
     \<lparr>a_id = ident, userId = uid, date = d, checkInTime = Some (getTime now),
      checkOutTime = None, status = st, totalHours = None, a_createdAt = getTime now\<rparr>"

definition engineer :: User where
  "engineer =
     \<lparr>u_id = ''u1'', u_name = ''John Smith'', u_email = ''employee1@example.com'',
      u_password = ''hash'', u_role = Employee, u_employeeId = ''EMP001'',
      u_department = ''Engineering'', u_createdAt = 0\<rparr>"

definition saturdayRecord :: Attendance where
  "saturdayRecord = recordOn ''a1'' ''u1'' ''2024-06-01'' Present (clockAt 1 9 0 0)"

definition sundayRecord :: Attendance where
  "sundayRecord = recordOn ''a2'' ''u1'' ''2024-06-02'' Present (clockAt 2 9 0 0)"

definition mondayRecord :: Attendance where
  "mondayRecord = recordOn ''a3'' ''u1'' ''2024-06-03'' Present (clockAt 3 9 0 0)"

definition mondayLateRecord :: Attendance where
  "mondayLateRecord = recordOn ''a3'' ''u1'' ''2024-06-03'' Late (clockAt 3 9 30 0)"

definition wednesdayRecord :: Attendance where
  "wednesdayRecord = recordOn ''a5'' ''u1'' ''2024-06-05'' Present (clockAt 5 9 0 0)"

definition oneDayPresent :: MonthlySummary where
  "oneDayPresent =
     \<lparr>present = 1, absent = 0, late = 0, halfDay = 0, sumHours = 0, workingDays = 1\<rparr>"

section \<open>Properties of the routes\<close>

lemma checkin_success:
  assumes "checkin storage uid today now uuid created = (Inr a, storage')"
  shows "getAttendanceByUserAndDate storage uid today = None \<and>
         createAttendance storage
           \<lparr>i_userId = uid, i_date = today, i_checkInTime = Some (getTime now),
            i_checkOutTime = None, i_status = checkinStatus now, i_totalHours = None\<rparr>
           uuid created = Inr (a, storage')"
  using assms by (auto simp: checkin_def split: option.splits sum.splits)

lemma createAttendance_result:
  assumes "createAttendance storage ins ident created = Inr (a, storage')"
  shows "a = newAttendance ins ident created"
  using assms by (cases storage) (auto simp: Let_def split: if_splits)

lemma checkin_record:
  assumes "checkin storage uid today now uuid created = (Inr a, storage')"
  shows "userId a = uid \<and> date a = today \<and> status a = checkinStatus now \<and>
         checkInTime a = Some (getTime now) \<and> checkOutTime a = None \<and> totalHours a = None"
  using checkin_success[OF assms] createAttendance_result
  by (fastforce simp: newAttendance_def)

lemma checkinStatus_seconds:
  assumes "0 \<le> getMinutes now" "getMinutes now < 60" "0 \<le> getSeconds now" "getSeconds now < 60"
  shows "checkinStatus now = (if 9 * 3600 + 16 * 60 \<le> secondsOfDay now then Late else Present)"
  using assms by (auto simp: checkinStatus_def secondsOfDay_def Let_def)

text \<open>
  Claim C1, as amended. The check-in route compares the hour and the minute of the clock
  and never its seconds: the created record is \<open>late\<close> exactly when the local time of day is
  09:16:00 or later, and \<open>present\<close> at any earlier time, the whole minute 09:15 included.
\<close>

theorem checkin_status_by_minute:
  assumes "checkin storage uid today now uuid created = (Inr a, storage')"
    and "0 \<le> getMinutes now" "getMinutes now < 60" "0 \<le> getSeconds now" "getSeconds now < 60"
  shows "(status a = Late \<longleftrightarrow> 9 * 3600 + 16 * 60 \<le> secondsOfDay now) \<and>
         (status a = Present \<longleftrightarrow> secondsOfDay now < 9 * 3600 + 16 * 60)"
  using checkin_record[OF assms(1)] checkinStatus_seconds[OF assms(2-5)] by auto


lemma findOneAndUpdate_Some:
  assumes "findOneAndUpdate ident updates ds = (Some updated, ds')"
  shows "(\<exists>existing. find (\<lambda>a. a_id a = ident) ds = Some existing \<and>
            updated = applyUpdates existing updates) \<and>
         (a_id updated = ident \<longrightarrow> find (\<lambda>a. a_id a = ident) ds' = Some updated)"
  using assms
proof (induction ds arbitrary: ds')
  case Nil
  then show ?case by simp
next
  case (Cons d ds)
  show ?case
  proof (cases "a_id d = ident")
    case True
    with Cons.prems show ?thesis by auto
  next
    case False
    with Cons.prems obtain ds'' where
      r: "findOneAndUpdate ident updates ds = (Some updated, ds'')" and d: "ds' = d # ds''"
      by (auto split: prod.splits)
    from Cons.IH[OF r] False d show ?thesis by auto
  qed
qed

lemma findOneAndUpdate_None:
  assumes "findOneAndUpdate ident updates ds = (None, ds')"
  shows "ds' = ds"
  using assms
  by (induction ds arbitrary: ds') (auto split: if_splits prod.splits)


lemma applyUpdates_id: "a_id (applyUpdates existing updates) = a_id existing"
  by (simp add: applyUpdates_def)

lemma updateAttendance_None:
  assumes "updateAttendance storage ident updates = (None, storage')"
  shows "storage' = storage"
  using assms
  by (cases storage) (auto split: option.splits prod.splits dest: findOneAndUpdate_None simp: Let_def)

lemma updateAttendance_Some:
  assumes "updateAttendance storage ident updates = (Some updated, storage')"
  shows "\<exists>existing. getAttendance storage ident = Some existing \<and>
           updated = applyUpdates existing updates"
  using assms
  by (cases storage) (auto split: option.splits prod.splits dest: findOneAndUpdate_Some simp: Let_def)

lemma find_id: "find P xs = Some x \<Longrightarrow> P x"
  by (induction xs) (auto split: if_splits)

lemma updateAttendance_stored:
  assumes "updateAttendance storage ident updates = (Some updated, storage')"
  shows "getAttendance storage' ident = Some updated"
proof (cases storage)
  case (MemStorage users attendance)
  with assms show ?thesis
    by (auto split: option.splits simp: Let_def update_conv')
next
  case (MongoStorage users docs)
  with assms obtain docs' where
    r: "findOneAndUpdate ident updates docs = (Some updated, docs')" and
    s: "storage' = MongoStorage users docs'"
    by (auto split: prod.splits)
  from findOneAndUpdate_Some[OF r] obtain existing where
    e: "find (\<lambda>a. a_id a = ident) docs = Some existing" "updated = applyUpdates existing updates"
    and st: "a_id updated = ident \<longrightarrow> find (\<lambda>a. a_id a = ident) docs' = Some updated"
    by blast
  from find_id[OF e(1)] e(2) have "a_id updated = ident" by (simp add: applyUpdates_id)
  with st s show ?thesis by simp
qed

lemma checkout_cases:
  "checkout storage uid today now =
     (case getAttendanceByUserAndDate storage uid today of
        None \<Rightarrow> (Inl NoCheckInFound, storage)
      | Some attendance \<Rightarrow>
          if checkOutTime attendance \<noteq> None then (Inl AlreadyCheckedOut, storage)
          else (Inr (fst (updateAttendance storage (a_id attendance)
                 \<lparr>p_checkOutTime = Some (Some (getTime now)),
                  p_totalHours = Some (Some (of_int (mathRound (elapsedHours attendance now * 10)) / 10)),
                  p_status = Some (if elapsedHours attendance now < 4 then HalfDay else status attendance)\<rparr>)),
                snd (updateAttendance storage (a_id attendance)
                 \<lparr>p_checkOutTime = Some (Some (getTime now)),
                  p_totalHours = Some (Some (of_int (mathRound (elapsedHours attendance now * 10)) / 10)),
                  p_status = Some (if elapsedHours attendance now < 4 then HalfDay else status attendance)\<rparr>)))"
  by (simp add: checkout_def Let_def split: option.splits prod.splits)

lemma checkout_success:
  assumes "checkout storage uid today now = (Inr (Some updated), storage')"
  shows "\<exists>attendance. getAttendanceByUserAndDate storage uid today = Some attendance \<and>
           checkOutTime attendance = None \<and>
           updateAttendance storage (a_id attendance)
             \<lparr>p_checkOutTime = Some (Some (getTime now)),
              p_totalHours = Some (Some (of_int (mathRound (elapsedHours attendance now * 10)) / 10)),
              p_status = Some (if elapsedHours attendance now < 4 then HalfDay else status attendance)\<rparr>
           = (Some updated, storage')"
  using assms unfolding checkout_cases
  by (auto split: option.splits if_splits simp: prod_eq_iff)

lemma checkout_updated_fields:
  assumes "checkout storage uid today now = (Inr (Some updated), storage')"
  shows "\<exists>attendance. getAttendanceByUserAndDate storage uid today = Some attendance \<and>
           checkOutTime attendance = None \<and>
           checkOutTime updated = Some (getTime now) \<and>
           totalHours updated = Some (of_int (mathRound (elapsedHours attendance now * 10)) / 10) \<and>
           status updated = (if elapsedHours attendance now < 4 then HalfDay else status attendance) \<and>
           getAttendance storage' (a_id attendance) = Some updated"
proof -
  from checkout_success[OF assms] obtain attendance where
    a: "getAttendanceByUserAndDate storage uid today = Some attendance"
       "checkOutTime attendance = None" and
    u: "updateAttendance storage (a_id attendance)
             \<lparr>p_checkOutTime = Some (Some (getTime now)),
              p_totalHours = Some (Some (of_int (mathRound (elapsedHours attendance now * 10)) / 10)),
              p_status = Some (if elapsedHours attendance now < 4 then HalfDay else status attendance)\<rparr>
           = (Some updated, storage')"
    by blast
  from updateAttendance_Some[OF u] obtain existing where
    "updated = applyUpdates existing
             \<lparr>p_checkOutTime = Some (Some (getTime now)),
              p_totalHours = Some (Some (of_int (mathRound (elapsedHours attendance now * 10)) / 10)),
              p_status = Some (if elapsedHours attendance now < 4 then HalfDay else status attendance)\<rparr>"
    by blast
  then have "checkOutTime updated = Some (getTime now)"
    "totalHours updated = Some (of_int (mathRound (elapsedHours attendance now * 10)) / 10)"
    "status updated = (if elapsedHours attendance now < 4 then HalfDay else status attendance)"
    by (simp_all add: applyUpdates_def)
  with a updateAttendance_stored[OF u] show ?thesis by blast
qed

text \<open>
  Progress of check-out: in a store that files each record under its own id, the record
  the route has found by user and date is found again by its id, and
  \<open>findOneAndUpdate\<close> on an id that exists changes the first document with that id.
\<close>

lemma find_in_set: "find P xs = Some x \<Longrightarrow> x \<in> set xs"
  by (induction xs) (auto split: if_splits)

lemma findOneAndUpdate_result:
  assumes "find (\<lambda>a. a_id a = ident) ds = Some existing"
  shows "\<exists>ds'. findOneAndUpdate ident updates ds = (Some (applyUpdates existing updates), ds') \<and>
           find (\<lambda>a. a_id a = ident) ds' = Some (applyUpdates existing updates)"
  using assms
  by (induction ds) (auto simp: applyUpdates_id split: if_splits)

lemma getAttendance_of_found:
  assumes "keysAreIds storage"
    and "getAttendanceByUserAndDate storage uid today = Some attendance"
  shows "getAttendance storage (a_id attendance) \<noteq> None"
proof (cases storage)
  case (MemStorage users att)
  with assms(2) have "attendance \<in> snd ` set att"
    by (auto dest: find_in_set)
  then obtain k where k: "(k, attendance) \<in> set att" by auto
  with assms(1) MemStorage have "a_id attendance = k"
    by (auto simp: list_all_iff)
  with k have "a_id attendance \<in> fst ` set att" by force
  then have "map_of att (a_id attendance) \<noteq> None"
    by (simp add: map_of_eq_None_iff)
  with MemStorage show ?thesis by simp
next
  case (MongoStorage users docs)
  with assms(2) have "attendance \<in> set docs"
    by (auto dest: find_in_set)
  then have "find (\<lambda>a. a_id a = a_id attendance) docs \<noteq> None"
    by (auto simp: find_None_iff)
  with MongoStorage show ?thesis by simp
qed

text \<open>
  Claim C3. In a store that files each record under its own id, let the record of the
  user for today be open, with check-in time \<open>t\<close>. Check-out then succeeds, the record it
  returns is the one the store holds under the id afterwards, and with the elapsed hours
  \<open>(now - t) / 3600000\<close>, taken before any rounding: below 4 hours the status of that
  record is \<open>half-day\<close> whatever check-in had set, and from 4 hours on it is the status
  set at check-in.
\<close>

theorem checkout_status_rule:
  assumes "keysAreIds storage"
    and "getAttendanceByUserAndDate storage uid today = Some attendance"
    and "checkOutTime attendance = None"
    and "checkInTime attendance = Some t"
  shows "\<exists>updated storage'.
           checkout storage uid today now = (Inr (Some updated), storage') \<and>
           getAttendance storage' (a_id attendance) = Some updated \<and>
           ((of_int (getTime now - t) / 3600000 :: rat) < 4 \<longrightarrow> status updated = HalfDay) \<and>
           (4 \<le> (of_int (getTime now - t) / 3600000 :: rat) \<longrightarrow>
              status updated = status attendance)"
proof -
  let ?h = "of_int (getTime now - t) / 3600000 :: rat"
  let ?updates = "\<lparr>p_checkOutTime = Some (Some (getTime now)),
                   p_totalHours = Some (Some (of_int (mathRound (?h * 10)) / 10)),
                   p_status = Some (if ?h < 4 then HalfDay else status attendance)\<rparr>"
  from getAttendance_of_found[OF assms(1,2)] obtain existing where
    g: "getAttendance storage (a_id attendance) = Some existing"
    by auto
  have s: "status (applyUpdates existing ?updates) = (if ?h < 4 then HalfDay else status attendance)"
    by (simp add: applyUpdates_def)
  show ?thesis
  proof (cases storage)
    case (MemStorage users att)
    with g have m: "map_of att (a_id attendance) = Some existing"
      by simp
    from assms(2-4) MemStorage m
    have "checkout storage uid today now =
            (Inr (Some (applyUpdates existing ?updates)),
             MemStorage users (AList.update (a_id attendance) (applyUpdates existing ?updates) att))"
      by (simp add: checkout_def elapsedHours_def Let_def)
    moreover
    have "getAttendance
            (MemStorage users (AList.update (a_id attendance) (applyUpdates existing ?updates) att))
            (a_id attendance) = Some (applyUpdates existing ?updates)"
      by (simp add: update_conv')
    ultimately show ?thesis using s by auto
  next
    case (MongoStorage users docs)
    with g have "find (\<lambda>a. a_id a = a_id attendance) docs = Some existing"
      by simp
    from findOneAndUpdate_result[OF this, of ?updates] obtain docs' where
      f: "findOneAndUpdate (a_id attendance) ?updates docs =
            (Some (applyUpdates existing ?updates), docs')"
         "find (\<lambda>a. a_id a = a_id attendance) docs' = Some (applyUpdates existing ?updates)"
      by blast
    from assms(2-4) MongoStorage f(1)
    have "checkout storage uid today now =
            (Inr (Some (applyUpdates existing ?updates)), MongoStorage users docs')"
      by (simp add: checkout_def elapsedHours_def Let_def)
    moreover
    from f(2) have "getAttendance (MongoStorage users docs') (a_id attendance) =
            Some (applyUpdates existing ?updates)"
      by simp
    ultimately show ?thesis using s by auto
  qed
qed

lemma checkout_failure_unchanged:
  assumes "checkout storage uid today now = (res, storage')"
    and "\<forall>updated. res \<noteq> Inr (Some updated)"
  shows "storage' = storage"
proof (cases "getAttendanceByUserAndDate storage uid today")
  case None
  with assms show ?thesis by (simp add: checkout_cases)
next
  case (Some attendance)
  show ?thesis
  proof (cases "checkOutTime attendance \<noteq> None")
    case True
    with Some assms show ?thesis by (simp add: checkout_cases)
  next
    case False
    let ?u = "updateAttendance storage (a_id attendance)
                 \<lparr>p_checkOutTime = Some (Some (getTime now)),
                  p_totalHours = Some (Some (of_int (mathRound (elapsedHours attendance now * 10)) / 10)),
                  p_status = Some (if elapsedHours attendance now < 4 then HalfDay else status attendance)\<rparr>"
    from False Some assms(1) have r: "res = Inr (fst ?u)" "storage' = snd ?u"
      by (auto simp add: checkout_cases)
    with assms(2) have "fst ?u = None" by (cases "fst ?u") auto
    then have "?u = (None, storage')" using r(2) by (simp add: prod_eq_iff)
    from updateAttendance_None[OF this] show ?thesis .
  qed
qed

text \<open>
  Claim C7. Check-out answers \<open>NoCheckInFound\<close> when the store has no record for the user
  and today, and \<open>AlreadyCheckedOut\<close> when the record has a check-out time; every failing
  check-out leaves the store as it was; and a successful one returns the stored record
  with its check-out time and its hours both set.
\<close>

theorem checkout_failures_atomic:
  "(getAttendanceByUserAndDate storage uid today = None \<longrightarrow>
      checkout storage uid today now = (Inl NoCheckInFound, storage)) \<and>
   (\<forall>attendance t. getAttendanceByUserAndDate storage uid today = Some attendance \<and>
        checkOutTime attendance = Some t \<longrightarrow>
      checkout storage uid today now = (Inl AlreadyCheckedOut, storage)) \<and>
   (\<forall>e storage'. checkout storage uid today now = (Inl e, storage') \<longrightarrow> storage' = storage) \<and>
   (\<forall>updated storage'. checkout storage uid today now = (Inr (Some updated), storage') \<longrightarrow>
      checkOutTime updated = Some (getTime now) \<and> totalHours updated \<noteq> None \<and>
      (\<exists>attendance. getAttendanceByUserAndDate storage uid today = Some attendance \<and>
         checkOutTime attendance = None \<and>
         getAttendance storage' (a_id attendance) = Some updated))"
proof (intro conjI allI impI)
  assume "getAttendanceByUserAndDate storage uid today = None"
  then show "checkout storage uid today now = (Inl NoCheckInFound, storage)"
    by (simp add: checkout_cases)
next
  fix attendance t
  assume "getAttendanceByUserAndDate storage uid today = Some attendance \<and>
        checkOutTime attendance = Some t"
  then show "checkout storage uid today now = (Inl AlreadyCheckedOut, storage)"
    by (simp add: checkout_cases)
next
  fix e storage'
  assume "checkout storage uid today now = (Inl e, storage')"
  then show "storage' = storage" by (rule checkout_failure_unchanged) simp
next
  fix updated storage'
  assume a: "checkout storage uid today now = (Inr (Some updated), storage')"
  from checkout_updated_fields[OF a]
  show "checkOutTime updated = Some (getTime now)" by blast
  from checkout_updated_fields[OF a]
  show "totalHours updated \<noteq> None" by auto
  from checkout_updated_fields[OF a]
  show "\<exists>attendance. getAttendanceByUserAndDate storage uid today = Some attendance \<and>
         checkOutTime attendance = None \<and>
         getAttendance storage' (a_id attendance) = Some updated" by blast
qed

lemma mathRound_tenth:
  "of_int (mathRound (x * 10)) / 10 - 1 / 20 \<le> x \<and> x < of_int (mathRound (x * 10)) / 10 + 1 / 20"
proof -
  have "of_int \<lfloor>x * 10 + 1 / 2\<rfloor> \<le> x * 10 + 1 / 2" by linarith
  moreover have "x * 10 + 1 / 2 < of_int \<lfloor>x * 10 + 1 / 2\<rfloor> + 1" by linarith
  ultimately show ?thesis by (simp add: mathRound_def field_simps)
qed

text \<open>
  Claim C8. In a store that files each record under its own id, let the record of the
  user for today be open, with check-in time \<open>t\<close>. Check-out then succeeds, the record it
  returns is the one the store holds under the id afterwards, and its \<open>totalHours\<close> is a
  whole number of tenths \<open>n / 10\<close> such that the elapsed hours \<open>(now - t) / 3600000\<close> lie
  in the half-open interval from \<open>n / 10 - 0.05\<close> (included) to \<open>n / 10 + 0.05\<close> (excluded):
  the elapsed hours rounded to one decimal, a tie going up.
\<close>

theorem checkout_totalHours_rounded:
  assumes "keysAreIds storage"
    and "getAttendanceByUserAndDate storage uid today = Some attendance"
    and "checkOutTime attendance = None"
    and "checkInTime attendance = Some t"
  shows "\<exists>updated storage' n.
           checkout storage uid today now = (Inr (Some updated), storage') \<and>
           getAttendance storage' (a_id attendance) = Some updated \<and>
           totalHours updated = Some (of_int n / 10) \<and>
           of_int n / 10 - 1 / 20 \<le> (of_int (getTime now - t) / 3600000 :: rat) \<and>
           (of_int (getTime now - t) / 3600000 :: rat) < of_int n / 10 + 1 / 20"
proof -
  let ?h = "of_int (getTime now - t) / 3600000 :: rat"
  let ?n = "mathRound (?h * 10)"
  let ?updates = "\<lparr>p_checkOutTime = Some (Some (getTime now)),
                   p_totalHours = Some (Some (of_int ?n / 10)),
                   p_status = Some (if ?h < 4 then HalfDay else status attendance)\<rparr>"
  from getAttendance_of_found[OF assms(1,2)] obtain existing where
    g: "getAttendance storage (a_id attendance) = Some existing"
    by auto
  have th: "totalHours (applyUpdates existing ?updates) = Some (of_int ?n / 10)"
    by (simp add: applyUpdates_def)
  have r: "of_int ?n / 10 - 1 / 20 \<le> ?h \<and> ?h < of_int ?n / 10 + 1 / 20"
    by (rule mathRound_tenth)
  show ?thesis
  proof (cases storage)
    case (MemStorage users att)
    with g have m: "map_of att (a_id attendance) = Some existing"
      by simp
    from assms(2-4) MemStorage m
    have "checkout storage uid today now =
            (Inr (Some (applyUpdates existing ?updates)),
             MemStorage users (AList.update (a_id attendance) (applyUpdates existing ?updates) att))"
      by (simp add: checkout_def elapsedHours_def Let_def)
    moreover
    have "getAttendance
            (MemStorage users (AList.update (a_id attendance) (applyUpdates existing ?updates) att))
            (a_id attendance) = Some (applyUpdates existing ?updates)"
      by (simp add: update_conv')
    ultimately show ?thesis using th r by blast
  next
    case (MongoStorage users docs)
    with g have "find (\<lambda>a. a_id a = a_id attendance) docs = Some existing"
      by simp
    from findOneAndUpdate_result[OF this, of ?updates] obtain docs' where
      f: "findOneAndUpdate (a_id attendance) ?updates docs =
            (Some (applyUpdates existing ?updates), docs')"
         "find (\<lambda>a. a_id a = a_id attendance) docs' = Some (applyUpdates existing ?updates)"
      by blast
    from assms(2-4) MongoStorage f(1)
    have "checkout storage uid today now =
            (Inr (Some (applyUpdates existing ?updates)), MongoStorage users docs')"
      by (simp add: checkout_def elapsedHours_def Let_def)
    moreover
    from f(2) have "getAttendance (MongoStorage users docs') (a_id attendance) =
            Some (applyUpdates existing ?updates)"
      by simp
    ultimately show ?thesis using th r by blast
  qed
qed

text \<open>
  Claim C2, as amended. In the monthly summary \<open>absent\<close> is
  \<open>max 0 (workingDays - (present + late + halfDay))\<close>, so the four counters add up to the
  greater of \<open>workingDays\<close> and \<open>present + late + halfDay\<close>; they add up to \<open>workingDays\<close>
  whenever the records counted do not outnumber the working days. \<open>workingDays\<close> is the
  count up to today for the current month and the count of the whole month otherwise.
\<close>

theorem mySummary_total:
  assumes "mySummary storage uid monthParam today todayDate = s"
  shows "absent s = max 0 (workingDays s - (present s + late s + halfDay s)) \<and>
         present s + late s + halfDay s + absent s =
           max (workingDays s) (present s + late s + halfDay s) \<and>
         (present s + late s + halfDay s \<le> workingDays s \<longrightarrow>
            present s + late s + halfDay s + absent s = workingDays s) \<and>
         workingDays s =
           (if requestedMonth monthParam today = take 7 today
            then daysToCountUpTo (requestedMonth monthParam today) (getDate todayDate)
            else getWorkingDaysInMonth (requestedMonth monthParam today))"
proof -
  obtain p l h t where
    f: "foldl tally (0, 0, 0, 0)
          (getAttendanceByUser storage uid (Some (requestedMonth monthParam today))) = (p, l, h, t)"
    by (metis prod_cases4)
  let ?d = "if requestedMonth monthParam today = take 7 today
            then daysToCountUpTo (requestedMonth monthParam today) (getDate todayDate)
            else getWorkingDaysInMonth (requestedMonth monthParam today)"
  from assms f have s: "s = \<lparr>present = p, absent = max 0 (?d - (p + l + h)), late = l, halfDay = h,
          sumHours = of_int (mathRound (t * 10)) / 10, workingDays = ?d\<rparr>"
    by (simp add: mySummary_def Let_def)
  have "present s = p" "late s = l" "halfDay s = h" "workingDays s = ?d"
    "absent s = max 0 (?d - (p + l + h))"
    by (simp_all add: s)
  then show ?thesis by (simp add: max_def)
qed

lemma tallyOrg_absent:
  "fst (snd (snd (tallyOrg acc r))) = fst (snd (snd acc))"
  by (cases acc) simp

lemma foldl_tallyOrg_absent:
  "fst (snd (snd (foldl tallyOrg acc rs))) = fst (snd (snd acc))"
  by (induction rs arbitrary: acc) (simp_all add: tallyOrg_absent)

lemma foldl_employees_absent:
  "fst (snd (snd (foldl (\<lambda>acc emp. foldl tallyOrg acc (recs emp)) acc emps))) = fst (snd (snd acc))"
  by (induction emps arbitrary: acc) (simp_all add: foldl_tallyOrg_absent)

text \<open>
  Claim C10. The organisation-wide summary reports \<open>absent = 0\<close> for every store, month and
  roster: no step of its two loops changes the counter \<open>totalAbsent\<close>.
\<close>

theorem orgSummary_absent_zero:
  "orgAbsent (orgSummary storage monthParam today) = 0"
proof -
  let ?f = "foldl (\<lambda>acc emp. foldl tallyOrg acc
              (getAttendanceByUser storage (u_id emp) (Some (requestedMonth monthParam today))))
              (0, 0, 0, 0) (getAllEmployees storage)"
  have "orgAbsent (orgSummary storage monthParam today) = fst (snd (snd ?f))"
    by (simp add: orgSummary_def Let_def split: prod.splits)
  also have "\<dots> = 0"
    by (simp add: foldl_employees_absent)
  finally show ?thesis .
qed














text \<open>
  Filing under the own id holds in the empty stores and is kept by every operation.
\<close>

lemma update_keysAreIds:
  assumes "list_all (\<lambda>p. a_id (snd p) = fst p) al" "a_id v = k"
  shows "list_all (\<lambda>p. a_id (snd p) = fst p) (AList.update k v al)"
  using assms by (induction al) auto

lemma createAttendance_keysAreIds:
  assumes "createAttendance storage ins ident created = Inr (a, storage')" "keysAreIds storage"
  shows "keysAreIds storage'"
  using assms
  by (cases storage) (auto simp: Let_def newAttendance_def intro!: update_keysAreIds split: if_splits)

lemma checkin_keysAreIds:
  assumes "checkin s uid today now uuid created = (res, s')" "keysAreIds s"
  shows "keysAreIds s'"
  using assms
  by (auto simp: checkin_def split: option.splits sum.splits dest: createAttendance_keysAreIds)

lemma updateAttendance_keysAreIds:
  assumes "updateAttendance storage ident updates = (r, storage')" "keysAreIds storage"
  shows "keysAreIds storage'"
proof (cases storage)
  case (MemStorage users att)
  show ?thesis
  proof (cases "map_of att ident")
    case None
    with MemStorage assms show ?thesis by simp
  next
    case (Some existing)
    then have "(ident, existing) \<in> set att" by (rule map_of_SomeD)
    with assms(2) MemStorage have "a_id existing = ident" by (auto simp: list_all_iff)
    then have "a_id (applyUpdates existing updates) = ident" by (simp add: applyUpdates_id)
    from update_keysAreIds[OF _ this, of att] assms MemStorage Some show ?thesis
      by (auto simp: Let_def)
  qed
next
  case (MongoStorage users docs)
  with assms(1) show ?thesis by (auto split: prod.splits)
qed

lemma checkout_keysAreIds:
  assumes "checkout s uid today now = (res, s')" "keysAreIds s"
  shows "keysAreIds s'"
proof (cases "\<exists>updated. res = Inr (Some updated)")
  case False
  with checkout_failure_unchanged[OF assms(1)] assms(2) show ?thesis by simp
next
  case True
  then obtain updated where "res = Inr (Some updated)" by blast
  with assms(1) have "checkout s uid today now = (Inr (Some updated), s')" by simp
  from checkout_success[OF this] updateAttendance_keysAreIds assms(2) show ?thesis by blast
qed

lemma sameAttendance_keysAreIds:
  assumes "sameAttendance s s'" "keysAreIds s"
  shows "keysAreIds s'"
  using assms by (cases s; cases s') simp_all

lemma reachable_keysAreIds:
  assumes "reachableFrom s0 s" "keysAreIds s0"
  shows "keysAreIds s"
  using assms
  by (induction rule: reachableFrom.induct)
     (auto intro: checkin_keysAreIds checkout_keysAreIds sameAttendance_keysAreIds)


section \<open>The routes on concrete requests\<close>

subsection \<open>Check-in\<close>

lemma checkin_at_09_15_01:
  "checkin (MemStorage [] []) ''u1'' ''2024-06-03'' (clockAt 3 9 15 1) ''a3''
       (getTime (clockAt 3 9 15 1)) =
     (Inr (recordOn ''a3'' ''u1'' ''2024-06-03'' Present (clockAt 3 9 15 1)),
      MemStorage [] [(''a3'', recordOn ''a3'' ''u1'' ''2024-06-03'' Present (clockAt 3 9 15 1))])"
  by code_simp

lemma checkin_at_09_16_00:
  "checkin (MongoStorage [] []) ''u1'' ''2024-06-03'' (clockAt 3 9 16 0) ''a3''
       (getTime (clockAt 3 9 16 0)) =
     (Inr (recordOn ''a3'' ''u1'' ''2024-06-03'' Late (clockAt 3 9 16 0)),
      MongoStorage [] [recordOn ''a3'' ''u1'' ''2024-06-03'' Late (clockAt 3 9 16 0)])"
  by code_simp

text \<open>
  Claim C1 as stated fails one second after 09:15:00: on an empty store a check-in at
  09:15:01 local time, strictly after 09:15:00, creates a record with status \<open>present\<close>.
\<close>

theorem checkin_one_second_after_counterexample:
  "9 * 3600 + 15 * 60 < secondsOfDay (clockAt 3 9 15 1) \<and>
   checkin (MemStorage [] []) ''u1'' ''2024-06-03'' (clockAt 3 9 15 1) ''a3''
       (getTime (clockAt 3 9 15 1)) =
     (Inr (recordOn ''a3'' ''u1'' ''2024-06-03'' Present (clockAt 3 9 15 1)),
      MemStorage [] [(''a3'', recordOn ''a3'' ''u1'' ''2024-06-03'' Present (clockAt 3 9 15 1))]) \<and>
   status (recordOn ''a3'' ''u1'' ''2024-06-03'' Present (clockAt 3 9 15 1)) = Present"
  using checkin_at_09_15_01 by (simp add: secondsOfDay_def clockAt_def recordOn_def)

text \<open>The amended claim C1 at 09:16:00, the first time of day that is late.\<close>

theorem checkin_status_by_minute_witness:
  "checkin (MongoStorage [] []) ''u1'' ''2024-06-03'' (clockAt 3 9 16 0) ''a3''
       (getTime (clockAt 3 9 16 0)) =
     (Inr (recordOn ''a3'' ''u1'' ''2024-06-03'' Late (clockAt 3 9 16 0)),
      MongoStorage [] [recordOn ''a3'' ''u1'' ''2024-06-03'' Late (clockAt 3 9 16 0)]) \<and>
   0 \<le> getMinutes (clockAt 3 9 16 0) \<and> getMinutes (clockAt 3 9 16 0) < 60 \<and>
   0 \<le> getSeconds (clockAt 3 9 16 0) \<and> getSeconds (clockAt 3 9 16 0) < 60 \<and>
   (status (recordOn ''a3'' ''u1'' ''2024-06-03'' Late (clockAt 3 9 16 0)) = Late \<longleftrightarrow>
      9 * 3600 + 16 * 60 \<le> secondsOfDay (clockAt 3 9 16 0)) \<and>
   (status (recordOn ''a3'' ''u1'' ''2024-06-03'' Late (clockAt 3 9 16 0)) = Present \<longleftrightarrow>
      secondsOfDay (clockAt 3 9 16 0) < 9 * 3600 + 16 * 60)"
proof -
  have m: "0 \<le> getMinutes (clockAt 3 9 16 0)" "getMinutes (clockAt 3 9 16 0) < 60"
    "0 \<le> getSeconds (clockAt 3 9 16 0)" "getSeconds (clockAt 3 9 16 0) < 60"
    by (simp_all add: clockAt_def)
  from checkin_status_by_minute[OF checkin_at_09_16_00 m] checkin_at_09_16_00 m
  show ?thesis by blast
qed

subsection \<open>Monthly summary\<close>

lemma mySummary_saturday:
  "mySummary (MemStorage [] [(''a1'', saturdayRecord)]) ''u1'' None ''2024-06-01''
       (clockAt 1 10 0 0) =
     \<lparr>present = 1, absent = 0, late = 0, halfDay = 0, sumHours = 0, workingDays = 0\<rparr>"
  by code_simp

lemma mySummary_monday:
  "mySummary (MongoStorage [] [mondayRecord]) ''u1'' (Some ''2024-06'') ''2024-06-03''
       (clockAt 3 10 0 0) = oneDayPresent"
  by code_simp

text \<open>
  Claim C2 as stated fails for a record made on a weekend. On Saturday 2024-06-01 the
  month has no working day yet; a user who checked in that day has \<open>present = 1\<close>, the
  clamp gives \<open>absent = 0\<close>, and the four counters add up to 1, not to \<open>workingDays = 0\<close>.
\<close>

theorem mySummary_weekend_counterexample:
  "present (mySummary (MemStorage [] [(''a1'', saturdayRecord)]) ''u1'' None ''2024-06-01''
       (clockAt 1 10 0 0))
   + late (mySummary (MemStorage [] [(''a1'', saturdayRecord)]) ''u1'' None ''2024-06-01''
       (clockAt 1 10 0 0))
   + halfDay (mySummary (MemStorage [] [(''a1'', saturdayRecord)]) ''u1'' None ''2024-06-01''
       (clockAt 1 10 0 0))
   + absent (mySummary (MemStorage [] [(''a1'', saturdayRecord)]) ''u1'' None ''2024-06-01''
       (clockAt 1 10 0 0))
   \<noteq> workingDays (mySummary (MemStorage [] [(''a1'', saturdayRecord)]) ''u1'' None ''2024-06-01''
       (clockAt 1 10 0 0))"
  by (simp add: mySummary_saturday)

text \<open>The amended claim C2 on Monday 2024-06-03, for a user with one record that day.\<close>

theorem mySummary_total_witness:
  "mySummary (MongoStorage [] [mondayRecord]) ''u1'' (Some ''2024-06'') ''2024-06-03''
       (clockAt 3 10 0 0) = oneDayPresent \<and>
   present oneDayPresent + late oneDayPresent + halfDay oneDayPresent
     \<le> workingDays oneDayPresent \<and>
   present oneDayPresent + late oneDayPresent + halfDay oneDayPresent + absent oneDayPresent
     = workingDays oneDayPresent \<and>
   workingDays oneDayPresent = 1"
proof -
  have le: "present oneDayPresent + late oneDayPresent + halfDay oneDayPresent
     \<le> workingDays oneDayPresent"
    by (simp add: oneDayPresent_def)
  have w: "workingDays oneDayPresent = 1"
    by (simp add: oneDayPresent_def)
  from mySummary_total[OF mySummary_monday] le
  have "present oneDayPresent + late oneDayPresent + halfDay oneDayPresent + absent oneDayPresent
     = workingDays oneDayPresent"
    by blast
  with mySummary_monday le w show ?thesis by blast
qed

subsection \<open>Check-out\<close>

lemma checkout_after_two_hours:
  "checkout (MemStorage [] [(''a3'', mondayLateRecord)]) ''u1'' ''2024-06-03'' (clockAt 3 11 30 0) =
     (Inr (Some (mondayLateRecord
        \<lparr>checkOutTime := Some (getTime (clockAt 3 11 30 0)), totalHours := Some 2,
         status := HalfDay\<rparr>)),
      MemStorage [] [(''a3'', mondayLateRecord
        \<lparr>checkOutTime := Some (getTime (clockAt 3 11 30 0)), totalHours := Some 2,
         status := HalfDay\<rparr>)])"
  by code_simp

lemma checkout_after_five_hours:
  "checkout (MongoStorage [] [mondayLateRecord]) ''u1'' ''2024-06-03'' (clockAt 3 14 30 0) =
     (Inr (Some (mondayLateRecord
        \<lparr>checkOutTime := Some (getTime (clockAt 3 14 30 0)), totalHours := Some 5\<rparr>)),
      MongoStorage [] [mondayLateRecord
        \<lparr>checkOutTime := Some (getTime (clockAt 3 14 30 0)), totalHours := Some 5\<rparr>])"
  by code_simp

lemma checkout_after_2_05_hours:
  "checkout (MongoStorage [] [mondayRecord]) ''u1'' ''2024-06-03'' (clockAt 3 11 3 0) =
     (Inr (Some (mondayRecord
        \<lparr>checkOutTime := Some (getTime (clockAt 3 11 3 0)), totalHours := Some (21 / 10),
         status := HalfDay\<rparr>)),
      MongoStorage [] [mondayRecord
        \<lparr>checkOutTime := Some (getTime (clockAt 3 11 3 0)), totalHours := Some (21 / 10),
         status := HalfDay\<rparr>])"
  by code_simp

lemma find_mondayLate:
  "getAttendanceByUserAndDate (MemStorage [] [(''a3'', mondayLateRecord)]) ''u1'' ''2024-06-03''
     = Some mondayLateRecord"
  by code_simp

lemma find_monday:
  "getAttendanceByUserAndDate (MongoStorage [] [mondayRecord]) ''u1'' ''2024-06-03''
     = Some mondayRecord"
  by code_simp

lemma find_mondayLate_mongo:
  "getAttendanceByUserAndDate (MongoStorage [] [mondayLateRecord]) ''u1'' ''2024-06-03''
     = Some mondayLateRecord"
  by code_simp

lemma mondayLate_open:
  "checkOutTime mondayLateRecord = None \<and>
   checkInTime mondayLateRecord = Some (getTime (clockAt 3 9 30 0)) \<and>
   status mondayLateRecord = Late"
  by (simp add: mondayLateRecord_def recordOn_def)

lemma monday_open:
  "checkOutTime mondayRecord = None \<and>
   checkInTime mondayRecord = Some (getTime (clockAt 3 9 0 0))"
  by (simp add: mondayRecord_def recordOn_def)

text \<open>
  Claim C3 on a record checked in late at 09:30. In \<open>MemStorage\<close>, checked out at 11:30,
  two hours have passed and the status \<open>late\<close> gives way to \<open>half-day\<close>. In \<open>MongoStorage\<close>,
  checked out at 14:30, five hours have passed and the status stays \<open>late\<close>.
\<close>

theorem checkout_status_rule_witness:
  "keysAreIds (MemStorage [] [(''a3'', mondayLateRecord)]) \<and>
   getAttendanceByUserAndDate (MemStorage [] [(''a3'', mondayLateRecord)]) ''u1'' ''2024-06-03''
     = Some mondayLateRecord \<and>
   checkOutTime mondayLateRecord = None \<and>
   checkInTime mondayLateRecord = Some (getTime (clockAt 3 9 30 0)) \<and>
   status mondayLateRecord = Late \<and>
   (of_int (getTime (clockAt 3 11 30 0) - getTime (clockAt 3 9 30 0)) / 3600000 :: rat) = 2 \<and>
   checkout (MemStorage [] [(''a3'', mondayLateRecord)]) ''u1'' ''2024-06-03'' (clockAt 3 11 30 0) =
     (Inr (Some (mondayLateRecord
        \<lparr>checkOutTime := Some (getTime (clockAt 3 11 30 0)), totalHours := Some 2,
         status := HalfDay\<rparr>)),
      MemStorage [] [(''a3'', mondayLateRecord
        \<lparr>checkOutTime := Some (getTime (clockAt 3 11 30 0)), totalHours := Some 2,
         status := HalfDay\<rparr>)]) \<and>
   status (mondayLateRecord
        \<lparr>checkOutTime := Some (getTime (clockAt 3 11 30 0)), totalHours := Some 2,
         status := HalfDay\<rparr>) = HalfDay \<and>
   keysAreIds (MongoStorage [] [mondayLateRecord]) \<and>
   getAttendanceByUserAndDate (MongoStorage [] [mondayLateRecord]) ''u1'' ''2024-06-03''
     = Some mondayLateRecord \<and>
   (of_int (getTime (clockAt 3 14 30 0) - getTime (clockAt 3 9 30 0)) / 3600000 :: rat) = 5 \<and>
   checkout (MongoStorage [] [mondayLateRecord]) ''u1'' ''2024-06-03'' (clockAt 3 14 30 0) =
     (Inr (Some (mondayLateRecord
        \<lparr>checkOutTime := Some (getTime (clockAt 3 14 30 0)), totalHours := Some 5\<rparr>)),
      MongoStorage [] [mondayLateRecord
        \<lparr>checkOutTime := Some (getTime (clockAt 3 14 30 0)), totalHours := Some 5\<rparr>]) \<and>
   status (mondayLateRecord
        \<lparr>checkOutTime := Some (getTime (clockAt 3 14 30 0)), totalHours := Some 5\<rparr>) =
     status mondayLateRecord"
proof -
  have k1: "keysAreIds (MemStorage [] [(''a3'', mondayLateRecord)])"
    by (simp add: mondayLateRecord_def recordOn_def)
  have k2: "keysAreIds (MongoStorage [] [mondayLateRecord])"
    by simp
  have o: "checkOutTime mondayLateRecord = None"
    and c: "checkInTime mondayLateRecord = Some (getTime (clockAt 3 9 30 0))"
    and l: "status mondayLateRecord = Late"
    using mondayLate_open by simp_all
  have h1: "(of_int (getTime (clockAt 3 11 30 0) - getTime (clockAt 3 9 30 0)) / 3600000 :: rat) = 2"
    by (simp add: clockAt_def)
  have h2: "(of_int (getTime (clockAt 3 14 30 0) - getTime (clockAt 3 9 30 0)) / 3600000 :: rat) = 5"
    by (simp add: clockAt_def)
  from checkout_status_rule[OF k1 find_mondayLate o c, of "clockAt 3 11 30 0"]
  obtain updated storage' where
    "checkout (MemStorage [] [(''a3'', mondayLateRecord)]) ''u1'' ''2024-06-03'' (clockAt 3 11 30 0)
       = (Inr (Some updated), storage')"
    "status updated = HalfDay"
    unfolding h1 by auto
  with checkout_after_two_hours
  have s1: "status (mondayLateRecord
        \<lparr>checkOutTime := Some (getTime (clockAt 3 11 30 0)), totalHours := Some 2,
         status := HalfDay\<rparr>) = HalfDay"
    by simp
  from checkout_status_rule[OF k2 find_mondayLate_mongo o c, of "clockAt 3 14 30 0"]
  obtain updated2 storage2 where
    "checkout (MongoStorage [] [mondayLateRecord]) ''u1'' ''2024-06-03'' (clockAt 3 14 30 0)
       = (Inr (Some updated2), storage2)"
    "status updated2 = status mondayLateRecord"
    unfolding h2 by auto
  with checkout_after_five_hours
  have s2: "status (mondayLateRecord
        \<lparr>checkOutTime := Some (getTime (clockAt 3 14 30 0)), totalHours := Some 5\<rparr>) =
     status mondayLateRecord"
    by simp
  from k1 find_mondayLate o c l h1 checkout_after_two_hours s1
       k2 find_mondayLate_mongo h2 checkout_after_five_hours s2
  show ?thesis by blast
qed

text \<open>
  Claim C7 on three stores: an empty one, one whose record for today is checked out
  already, and one whose record is open.
\<close>

theorem checkout_failures_atomic_witness:
  "checkout (MemStorage [] []) ''u1'' ''2024-06-03'' (clockAt 3 17 0 0) =
     (Inl NoCheckInFound, MemStorage [] []) \<and>
   checkout (MongoStorage [] [mondayRecord\<lparr>checkOutTime := Some (getTime (clockAt 3 16 0 0))\<rparr>])
       ''u1'' ''2024-06-03'' (clockAt 3 17 0 0) =
     (Inl AlreadyCheckedOut,
      MongoStorage [] [mondayRecord\<lparr>checkOutTime := Some (getTime (clockAt 3 16 0 0))\<rparr>]) \<and>
   checkOutTime (mondayLateRecord
        \<lparr>checkOutTime := Some (getTime (clockAt 3 14 30 0)), totalHours := Some 5\<rparr>) =
     Some (getTime (clockAt 3 14 30 0))"
proof -
  have n: "getAttendanceByUserAndDate (MemStorage [] []) ''u1'' ''2024-06-03'' = None"
    by simp
  have o: "getAttendanceByUserAndDate
         (MongoStorage [] [mondayRecord\<lparr>checkOutTime := Some (getTime (clockAt 3 16 0 0))\<rparr>])
         ''u1'' ''2024-06-03'' = Some (mondayRecord\<lparr>checkOutTime := Some (getTime (clockAt 3 16 0 0))\<rparr>) \<and>
       checkOutTime (mondayRecord\<lparr>checkOutTime := Some (getTime (clockAt 3 16 0 0))\<rparr>) =
         Some (getTime (clockAt 3 16 0 0))"
    by (simp add: mondayRecord_def recordOn_def)
  from checkout_failures_atomic[of "MemStorage [] []" "''u1''" "''2024-06-03''" "clockAt 3 17 0 0"] n
  have 1: "checkout (MemStorage [] []) ''u1'' ''2024-06-03'' (clockAt 3 17 0 0) =
     (Inl NoCheckInFound, MemStorage [] [])"
    by blast
  from checkout_failures_atomic[of
      "MongoStorage [] [mondayRecord\<lparr>checkOutTime := Some (getTime (clockAt 3 16 0 0))\<rparr>]"
      "''u1''" "''2024-06-03''" "clockAt 3 17 0 0"] o
  have 2: "checkout (MongoStorage [] [mondayRecord\<lparr>checkOutTime := Some (getTime (clockAt 3 16 0 0))\<rparr>])
       ''u1'' ''2024-06-03'' (clockAt 3 17 0 0) =
     (Inl AlreadyCheckedOut,
      MongoStorage [] [mondayRecord\<lparr>checkOutTime := Some (getTime (clockAt 3 16 0 0))\<rparr>])"
    by blast
  from checkout_failures_atomic[of "MongoStorage [] [mondayLateRecord]"
      "''u1''" "''2024-06-03''" "clockAt 3 14 30 0"] checkout_after_five_hours
  have 3: "checkOutTime (mondayLateRecord
        \<lparr>checkOutTime := Some (getTime (clockAt 3 14 30 0)), totalHours := Some 5\<rparr>) =
     Some (getTime (clockAt 3 14 30 0))"
    by blast
  from 1 2 3 show ?thesis by blast
qed

text \<open>
  Claim C8 on a tie in \<open>MongoStorage\<close>: checked in at 09:00 and out at 11:03, the elapsed
  2.05 hours are stored as 2.1. And in \<open>MemStorage\<close>: checked in at 09:30 and out at 11:30,
  the elapsed 2 hours are stored as 2.
\<close>

theorem checkout_totalHours_rounded_witness:
  "keysAreIds (MongoStorage [] [mondayRecord]) \<and>
   getAttendanceByUserAndDate (MongoStorage [] [mondayRecord]) ''u1'' ''2024-06-03''
     = Some mondayRecord \<and>
   checkOutTime mondayRecord = None \<and>
   checkInTime mondayRecord = Some (getTime (clockAt 3 9 0 0)) \<and>
   (of_int (getTime (clockAt 3 11 3 0) - getTime (clockAt 3 9 0 0)) / 3600000 :: rat) = 41 / 20 \<and>
   checkout (MongoStorage [] [mondayRecord]) ''u1'' ''2024-06-03'' (clockAt 3 11 3 0) =
     (Inr (Some (mondayRecord
        \<lparr>checkOutTime := Some (getTime (clockAt 3 11 3 0)), totalHours := Some (21 / 10),
         status := HalfDay\<rparr>)),
      MongoStorage [] [mondayRecord
        \<lparr>checkOutTime := Some (getTime (clockAt 3 11 3 0)), totalHours := Some (21 / 10),
         status := HalfDay\<rparr>]) \<and>
   (\<exists>n::int. totalHours (mondayRecord
        \<lparr>checkOutTime := Some (getTime (clockAt 3 11 3 0)), totalHours := Some (21 / 10),
         status := HalfDay\<rparr>) = Some (of_int n / 10) \<and>
      of_int n / 10 - 1 / 20 \<le> (41 / 20 :: rat) \<and> (41 / 20 :: rat) < of_int n / 10 + 1 / 20) \<and>
   keysAreIds (MemStorage [] [(''a3'', mondayLateRecord)]) \<and>
   getAttendanceByUserAndDate (MemStorage [] [(''a3'', mondayLateRecord)]) ''u1'' ''2024-06-03''
     = Some mondayLateRecord \<and>
   checkOutTime mondayLateRecord = None \<and>
   checkInTime mondayLateRecord = Some (getTime (clockAt 3 9 30 0)) \<and>
   (of_int (getTime (clockAt 3 11 30 0) - getTime (clockAt 3 9 30 0)) / 3600000 :: rat) = 2 \<and>
   checkout (MemStorage [] [(''a3'', mondayLateRecord)]) ''u1'' ''2024-06-03'' (clockAt 3 11 30 0) =
     (Inr (Some (mondayLateRecord
        \<lparr>checkOutTime := Some (getTime (clockAt 3 11 30 0)), totalHours := Some 2,
         status := HalfDay\<rparr>)),
      MemStorage [] [(''a3'', mondayLateRecord
        \<lparr>checkOutTime := Some (getTime (clockAt 3 11 30 0)), totalHours := Some 2,
         status := HalfDay\<rparr>)]) \<and>
   (\<exists>n::int. totalHours (mondayLateRecord
        \<lparr>checkOutTime := Some (getTime (clockAt 3 11 30 0)), totalHours := Some 2,
         status := HalfDay\<rparr>) = Some (of_int n / 10) \<and>
      of_int n / 10 - 1 / 20 \<le> (2 :: rat) \<and> (2 :: rat) < of_int n / 10 + 1 / 20)"
proof -
  have k1: "keysAreIds (MongoStorage [] [mondayRecord])"
    by simp
  have k2: "keysAreIds (MemStorage [] [(''a3'', mondayLateRecord)])"
    by (simp add: mondayLateRecord_def recordOn_def)
  have o1: "checkOutTime mondayRecord = None"
    and c1: "checkInTime mondayRecord = Some (getTime (clockAt 3 9 0 0))"
    using monday_open by simp_all
  have o2: "checkOutTime mondayLateRecord = None"
    and c2: "checkInTime mondayLateRecord = Some (getTime (clockAt 3 9 30 0))"
    using mondayLate_open by simp_all
  have h1: "(of_int (getTime (clockAt 3 11 3 0) - getTime (clockAt 3 9 0 0)) / 3600000 :: rat) = 41 / 20"
    by (simp add: clockAt_def)
  have h2: "(of_int (getTime (clockAt 3 11 30 0) - getTime (clockAt 3 9 30 0)) / 3600000 :: rat) = 2"
    by (simp add: clockAt_def)
  from checkout_totalHours_rounded[OF k1 find_monday o1 c1, of "clockAt 3 11 3 0"]
  obtain updated storage' n where
    "checkout (MongoStorage [] [mondayRecord]) ''u1'' ''2024-06-03'' (clockAt 3 11 3 0)
       = (Inr (Some updated), storage')"
    "totalHours updated = Some (of_int n / 10)"
    "of_int n / 10 - 1 / 20 \<le> (41 / 20 :: rat)" "(41 / 20 :: rat) < of_int n / 10 + 1 / 20"
    unfolding h1 by blast
  with checkout_after_2_05_hours
  have r1: "\<exists>n::int. totalHours (mondayRecord
        \<lparr>checkOutTime := Some (getTime (clockAt 3 11 3 0)), totalHours := Some (21 / 10),
         status := HalfDay\<rparr>) = Some (of_int n / 10) \<and>
      of_int n / 10 - 1 / 20 \<le> (41 / 20 :: rat) \<and> (41 / 20 :: rat) < of_int n / 10 + 1 / 20"
    by auto
  from checkout_totalHours_rounded[OF k2 find_mondayLate o2 c2, of "clockAt 3 11 30 0"]
  obtain updated2 storage2 m where
    "checkout (MemStorage [] [(''a3'', mondayLateRecord)]) ''u1'' ''2024-06-03'' (clockAt 3 11 30 0)
       = (Inr (Some updated2), storage2)"
    "totalHours updated2 = Some (of_int m / 10)"
    "of_int m / 10 - 1 / 20 \<le> (2 :: rat)" "(2 :: rat) < of_int m / 10 + 1 / 20"
    unfolding h2 by blast
  with checkout_after_two_hours
  have r2: "\<exists>n::int. totalHours (mondayLateRecord
        \<lparr>checkOutTime := Some (getTime (clockAt 3 11 30 0)), totalHours := Some 2,
         status := HalfDay\<rparr>) = Some (of_int n / 10) \<and>
      of_int n / 10 - 1 / 20 \<le> (2 :: rat) \<and> (2 :: rat) < of_int n / 10 + 1 / 20"
    by auto
  from k1 find_monday o1 c1 h1 checkout_after_2_05_hours r1
       k2 find_mondayLate o2 c2 h2 checkout_after_two_hours r2
  show ?thesis by blast
qed

subsection \<open>One record for each user and day\<close>



subsection \<open>The store on a key that exists\<close>

text \<open>
  Claim C4 on the two backends. The store holds the record of user \<open>u1\<close> for 2024-06-03
  and \<open>createAttendance\<close> is called for the same user and date. \<open>MemStorage\<close> accepts the
  call and then holds two records with that key; \<open>MongoStorage\<close>, with its unique index,
  answers with the duplicate-key error.
\<close>

theorem createAttendance_duplicate_key:
  "createAttendance (MemStorage [] [(''a3'', mondayRecord)])
       \<lparr>i_userId = ''u1'', i_date = ''2024-06-03'',
        i_checkInTime = Some (getTime (clockAt 3 9 30 0)), i_checkOutTime = None,
        i_status = Late, i_totalHours = None\<rparr>
       ''a4'' (getTime (clockAt 3 9 30 0)) =
     Inr (recordOn ''a4'' ''u1'' ''2024-06-03'' Late (clockAt 3 9 30 0),
          MemStorage [] [(''a3'', mondayRecord),
                         (''a4'', recordOn ''a4'' ''u1'' ''2024-06-03'' Late (clockAt 3 9 30 0))]) \<and>
   naturalKey (recordOn ''a4'' ''u1'' ''2024-06-03'' Late (clockAt 3 9 30 0)) =
     naturalKey mondayRecord \<and>
   createAttendance (MongoStorage [] [mondayRecord])
       \<lparr>i_userId = ''u1'', i_date = ''2024-06-03'',
        i_checkInTime = Some (getTime (clockAt 3 9 30 0)), i_checkOutTime = None,
        i_status = Late, i_totalHours = None\<rparr>
       ''a4'' (getTime (clockAt 3 9 30 0)) =
     Inl DuplicateKey"
  by code_simp

subsection \<open>Listing with a date and a range\<close>

text \<open>
  Claim C5 on the two backends, for the filters \<open>date = 2024-06-03\<close> and
  \<open>from = 2024-06-01\<close> over the records of 2024-06-03 and 2024-06-05. \<open>MemStorage\<close> applies
  both filters and returns the record of the 3rd. In \<open>MongoStorage\<close> the range replaces
  \<open>query.date\<close>, the date filter is lost, and the record of the 5th is returned as well.
\<close>

theorem getAllAttendance_date_and_range:
  "getAllAttendance (MemStorage [] [(''a3'', mondayRecord), (''a5'', wednesdayRecord)])
       \<lparr>f_employeeId = None, f_date = Some ''2024-06-03'', f_status = None,
        f_from = Some ''2024-06-01'', f_to = None\<rparr> = [mondayRecord] \<and>
   getAllAttendance (MongoStorage [] [mondayRecord, wednesdayRecord])
       \<lparr>f_employeeId = None, f_date = Some ''2024-06-03'', f_status = None,
        f_from = Some ''2024-06-01'', f_to = None\<rparr> = [wednesdayRecord, mondayRecord] \<and>
   date wednesdayRecord \<noteq> ''2024-06-03''"
  by code_simp

subsection \<open>Department percentage\<close>

text \<open>
  Claim C9 on Monday 2024-06-03, with one employee in Engineering who has a record on
  Saturday the 1st, Sunday the 2nd and Monday the 3rd. The three records count as
  present, the month has one working day so far, and the percentage is 300.
\<close>

theorem departmentWise_weekend_records:
  "departmentWise
       (MemStorage [(''u1'', engineer)]
          [(''a1'', saturdayRecord), (''a2'', sundayRecord), (''a3'', mondayRecord)])
       ''2024-06-03'' (clockAt 3 12 0 0) =
     [\<lparr>department = ''Engineering'', deptPresent = 3, total = 1, percentage = 300\<rparr>] \<and>
   departmentWise
       (MongoStorage [engineer] [saturdayRecord, sundayRecord, mondayRecord])
       ''2024-06-03'' (clockAt 3 12 0 0) =
     [\<lparr>department = ''Engineering'', deptPresent = 3, total = 1, percentage = 300\<rparr>]"
  by code_simp

end
